theory Spec2Isabelle
  imports Complex_Main "HOL-Library.Word"
begin

unbundle bit_operations_syntax

section \<open>Data model of constraint-solver.c\<close>

text \<open>
  \<^verbatim>\<open>int32_t\<close> is a 32-bit word: \<open>+\<close>, \<open>-\<close> and \<open>*\<close> wrap around, \<open>sint\<close> reads
  the two's complement value, comparisons of the source are signed (\<open><s\<close>, \<open>\<le>s\<close>).
\<close>

type_synonym int32 = "32 word"

subsection \<open>Single-precision floating point\<close>

text \<open>
  A finite \<^verbatim>\<open>float\<close> is the real number it denotes. Every operation of the source on
  floats rounds its exact result to the nearest single-precision value, ties to the even
  significand: 24 significant bits, the unit in the last place no finer than
  \<open>2 powi - 149\<close>. \<open>to_float\<close> is that rounding; \<open>float_exponent x\<close> is the exponent
  of the binade of \<open>x\<close>, at least \<open>- 126\<close>.
\<close>

function ilog2 :: "int \<Rightarrow> int" where
  "ilog2 n = (if n < 2 then 0 else 1 + ilog2 (n div 2))"
  by pat_completeness auto
termination
  by (relation "measure nat") auto

declare ilog2.simps [simp del]

fun exponent_below :: "nat \<Rightarrow> real \<Rightarrow> int \<Rightarrow> real \<Rightarrow> int" where
  "exponent_below 0 x e pw = e"
| "exponent_below (Suc n) x e pw =
     (if pw \<le> x then e else exponent_below n x (e - 1) (pw / 2))"

definition float_exponent :: "real \<Rightarrow> int" where
  "float_exponent x =
     (if 1 \<le> \<bar>x\<bar> then ilog2 \<lfloor>\<bar>x\<bar>\<rfloor> else exponent_below 125 \<bar>x\<bar> (- 1) (1 / 2))"

definition round_to_even :: "real \<Rightarrow> int" where
  "round_to_even y =
     (let f = \<lfloor>y\<rfloor>; d = y - of_int f
      in if d < 1 / 2 then f else if 1 / 2 < d then f + 1 else if even f then f else f + 1)"

definition to_float :: "real \<Rightarrow> real" where
  "to_float x =
     (if x = 0 then 0
      else (let ulp = 2 powi (float_exponent x - 23)
            in of_int (round_to_even (x / ulp)) * ulp))"

text \<open>The operators \<^verbatim>\<open>+\<close>, \<^verbatim>\<open>-\<close> and \<^verbatim>\<open>*\<close> on floats, and the conversion \<^verbatim>\<open>(float)n\<close>.\<close>

definition fadd :: "real \<Rightarrow> real \<Rightarrow> real" where
  "fadd a b = to_float (a + b)"

definition fsub :: "real \<Rightarrow> real \<Rightarrow> real" where
  "fsub a b = to_float (a - b)"

definition fmul :: "real \<Rightarrow> real \<Rightarrow> real" where
  "fmul a b = to_float (a * b)"

definition int_to_float :: "int32 \<Rightarrow> real" where
  "int_to_float n = to_float (real_of_int (sint n))"

text \<open>
  The activations come from JavaScript numbers, which may be infinite or NaN; a
  comparison with a NaN is false. The scoring weights, the rest multipliers and the
  scores computed from them are finite: the boundary fixes the weights, and no sum of
  theirs leaves the finite range.
\<close>

datatype c_float = Finite real | Pos_Inf | Neg_Inf | NaN

fun float_gt :: "c_float \<Rightarrow> real \<Rightarrow> bool" where
  "float_gt (Finite x) c = (c < x)"
| "float_gt Pos_Inf c = True"
| "float_gt Neg_Inf c = False"
| "float_gt NaN c = False"


text \<open>
  The cast \<^verbatim>\<open>(float)act\<close> of a double: it rounds, and a value that rounds to
  \<open>2 ^ 128\<close> or beyond becomes infinite.
\<close>

fun double_to_float :: "c_float \<Rightarrow> c_float" where
  "double_to_float (Finite x) =
     (if 2 ^ 128 \<le> \<bar>to_float x\<bar> then (if 0 < x then Pos_Inf else Neg_Inf)
      else Finite (to_float x))"
| "double_to_float Pos_Inf = Pos_Inf"
| "double_to_float Neg_Inf = Neg_Inf"
| "double_to_float NaN = NaN"

definition MAX_EXERCISES :: nat where
  "MAX_EXERCISES = 500"

definition MAX_MUSCLES :: nat where
  "MAX_MUSCLES = 50"

record ScoringWeights =
  goal_alignment :: real
  compound_preference :: real
  recovery_penalty_24h :: real
  recovery_penalty_48h :: real
  fitness_level_match :: real
  muscle_coverage_gap :: real

text \<open>
  The arrays \<^verbatim>\<open>activations[MAX_MUSCLES]\<close> and \<^verbatim>\<open>excluded_exercises_mask[16]\<close>
  are functions of the index; the code reads them at indices below 50 and 16 only.
\<close>

record Exercise =
  exercise_id :: int32
  difficulty :: int32
  is_compound :: int32
  movement_pattern :: int32
  estimated_seconds :: int32
  rest_seconds :: int32
  activations :: "nat \<Rightarrow> c_float"
  primary_muscles_mask :: int32
  locations_mask :: int32
  equipment_required_mask :: int32

record SolverRequest =
  time_available_seconds :: int32
  location :: int32
  equipment_mask :: int32
  goals_mask :: int32
  fitness_level :: int32
  excluded_exercises_mask :: "nat \<Rightarrow> int32"
  excluded_muscles_mask :: int32
  recent_24h_muscles_mask :: int32
  recent_48h_muscles_mask :: int32
  weights :: ScoringWeights

record ScoredExercise =
  index :: nat
  score :: real

subsection \<open>What C leaves to the platform\<close>

text \<open>
  Four things the source relies on are not fixed by the C language. They are parameters
  of the model, so that every theorem holds for each way a compiler and a C library
  may resolve them:
  \<^item> \<open>shl_undef n\<close>: the value of \<^verbatim>\<open>1 << n\<close> when \<open>n\<close> is negative or at least 32
    (the loops over the 50 muscles shift by up to 49);
  \<^item> \<open>load_undef req b\<close>: the word read from \<^verbatim>\<open>excluded_exercises_mask[b]\<close> of the
    request \<open>req\<close> for a negative \<open>b\<close> (an exercise with an id of -32 or less), which
    is the memory in front of the array;
  \<^item> \<open>f2i_undef x\<close>: the value of \<^verbatim>\<open>(int32_t)x\<close> when \<open>x\<close> is outside the range of
    \<^verbatim>\<open>int32_t\<close>;
  \<^item> \<open>qsort\<close>: the library's sorting routine, which does not say how it orders
    elements that compare equal.
\<close>

record platform =
  shl_undef :: "int \<Rightarrow> int32"
  load_undef :: "SolverRequest \<Rightarrow> int \<Rightarrow> int32"
  f2i_undef :: "real \<Rightarrow> int32"
  qsort :: "(ScoredExercise \<Rightarrow> ScoredExercise \<Rightarrow> int) \<Rightarrow> ScoredExercise list \<Rightarrow> ScoredExercise list"

text \<open>\<^verbatim>\<open>1 << n\<close> on \<^verbatim>\<open>int\<close>.\<close>

definition shl1 :: "platform \<Rightarrow> int \<Rightarrow> int32" where
  "shl1 p n = (if 0 \<le> n \<and> n < 32 then push_bit (nat n) 1 else shl_undef p n)"

text \<open>\<^verbatim>\<open>w & (1 << n)\<close> taken as a truth value.\<close>

definition has_bit :: "platform \<Rightarrow> int32 \<Rightarrow> int \<Rightarrow> bool" where
  "has_bit p w n = (w AND shl1 p n \<noteq> 0)"

text \<open>C's \<^verbatim>\<open>/\<close> and \<^verbatim>\<open>%\<close> on \<^verbatim>\<open>int\<close> truncate towards zero.\<close>

definition c_div :: "int \<Rightarrow> int \<Rightarrow> int" where
  "c_div a b = sgn a * sgn b * (\<bar>a\<bar> div \<bar>b\<bar>)"

definition c_mod :: "int \<Rightarrow> int \<Rightarrow> int" where
  "c_mod a b = a - b * c_div a b"

section \<open>Filter engine: \<^verbatim>\<open>passes_hard_filters\<close>\<close>

text \<open>The lookup \<^verbatim>\<open>bucket < 16 && (req->excluded_exercises_mask[bucket] & (1 << bit))\<close>.\<close>

definition load_excluded :: "platform \<Rightarrow> SolverRequest \<Rightarrow> int \<Rightarrow> int32" where
  "load_excluded p req bucket =
     (if 0 \<le> bucket then excluded_exercises_mask req (nat bucket)
      else load_undef p req bucket)"

definition exercise_excluded :: "platform \<Rightarrow> Exercise \<Rightarrow> SolverRequest \<Rightarrow> bool" where
  "exercise_excluded p ex req =
     (let bucket = c_div (sint (exercise_id ex)) 32;
          bit = c_mod (sint (exercise_id ex)) 32
      in bucket < 16 \<and> has_bit p (load_excluded p req bucket) bit)"

text \<open>The loop over the muscles, which returns 0 at the first hit.\<close>

fun activations_pass :: "platform \<Rightarrow> Exercise \<Rightarrow> SolverRequest \<Rightarrow> nat list \<Rightarrow> bool" where
  "activations_pass p ex req [] = True"
| "activations_pass p ex req (i # rest) =
     (if has_bit p (excluded_muscles_mask req) (int i) \<and> float_gt (activations ex i) 40
      then False
      else activations_pass p ex req rest)"

definition passes_hard_filters :: "platform \<Rightarrow> Exercise \<Rightarrow> SolverRequest \<Rightarrow> bool" where
  "passes_hard_filters p ex req =
     (if \<not> has_bit p (locations_mask ex) (sint (location req)) then False
      else if location req \<noteq> 0 \<and> equipment_required_mask ex AND NOT (equipment_mask req) \<noteq> 0
        then False
      else if exercise_excluded p ex req then False
      else if primary_muscles_mask ex AND excluded_muscles_mask req \<noteq> 0 then False
      else activations_pass p ex req [0..<MAX_MUSCLES])"


section \<open>Scoring engine: \<^verbatim>\<open>score_exercise\<close>\<close>

definition DIFFICULTY_MIN :: "int32 list" where
  "DIFFICULTY_MIN = [1, 2, 3]"

definition DIFFICULTY_MAX :: "int32 list" where
  "DIFFICULTY_MAX = [2, 3, 5]"

definition PATTERN_PUSH :: nat where "PATTERN_PUSH = 0"
definition PATTERN_PULL :: nat where "PATTERN_PULL = 1"
definition PATTERN_SQUAT :: nat where "PATTERN_SQUAT = 2"
definition PATTERN_HINGE :: nat where "PATTERN_HINGE = 3"
definition PATTERN_CARRY :: nat where "PATTERN_CARRY = 4"
definition PATTERN_CORE :: nat where "PATTERN_CORE = 5"
definition PATTERN_ISOLATION :: nat where "PATTERN_ISOLATION = 6"

definition GOAL_STRENGTH :: nat where "GOAL_STRENGTH = 0"
definition GOAL_HYPERTROPHY :: nat where "GOAL_HYPERTROPHY = 1"
definition GOAL_ENDURANCE :: nat where "GOAL_ENDURANCE = 2"
definition GOAL_MOBILITY :: nat where "GOAL_MOBILITY = 3"
definition GOAL_FAT_LOSS :: nat where "GOAL_FAT_LOSS = 4"

definition GOAL_PREFERRED_PATTERNS :: "int32 list" where
  "GOAL_PREFERRED_PATTERNS =
    [push_bit PATTERN_SQUAT 1 OR push_bit PATTERN_HINGE 1 OR push_bit PATTERN_PUSH 1
       OR push_bit PATTERN_PULL 1,
     push_bit PATTERN_PUSH 1 OR push_bit PATTERN_PULL 1 OR push_bit PATTERN_SQUAT 1
       OR push_bit PATTERN_HINGE 1,
     push_bit PATTERN_PUSH 1 OR push_bit PATTERN_PULL 1 OR push_bit PATTERN_SQUAT 1
       OR push_bit PATTERN_CORE 1,
     push_bit PATTERN_CORE 1 OR push_bit PATTERN_HINGE 1 OR push_bit PATTERN_SQUAT 1,
     push_bit PATTERN_SQUAT 1 OR push_bit PATTERN_HINGE 1 OR push_bit PATTERN_PUSH 1
       OR push_bit PATTERN_PULL 1]"

definition GOAL_PREFER_COMPOUND :: "int32 list" where
  "GOAL_PREFER_COMPOUND = [1, 1, 0, 0, 1]"

text \<open>The loop over the five goals, with the running score.\<close>

fun goal_loop :: "platform \<Rightarrow> Exercise \<Rightarrow> SolverRequest \<Rightarrow> nat list \<Rightarrow> real \<Rightarrow> real" where
  "goal_loop p ex req [] sc = sc"
| "goal_loop p ex req (goal # rest) sc =
     goal_loop p ex req rest
       (if has_bit p (goals_mask req) (int goal) then
          (let s1 = (if has_bit p (GOAL_PREFERRED_PATTERNS ! goal) (sint (movement_pattern ex))
                     then fadd sc (goal_alignment (weights req)) else sc)
           in if GOAL_PREFER_COMPOUND ! goal \<noteq> 0 \<and> is_compound ex \<noteq> 0
              then fadd s1 (fmul (goal_alignment (weights req)) 0.5) else s1)
        else sc)"

text \<open>The recovery penalties of the activated muscles.\<close>

fun recovery_loop :: "platform \<Rightarrow> Exercise \<Rightarrow> SolverRequest \<Rightarrow> nat list \<Rightarrow> real \<Rightarrow> real" where
  "recovery_loop p ex req [] sc = sc"
| "recovery_loop p ex req (i # rest) sc =
     recovery_loop p ex req rest
       (if float_gt (activations ex i) 0 then
          (if has_bit p (recent_24h_muscles_mask req) (int i)
             then fadd sc (recovery_penalty_24h (weights req))
           else if has_bit p (recent_48h_muscles_mask req) (int i)
             then fadd sc (recovery_penalty_48h (weights req))
           else sc)
        else sc)"

text \<open>The bonus for each activated muscle that the coverage mask does not hold yet.\<close>

fun coverage_gap_loop :: "platform \<Rightarrow> Exercise \<Rightarrow> SolverRequest \<Rightarrow> int32 \<Rightarrow> nat list \<Rightarrow> real \<Rightarrow> real" where
  "coverage_gap_loop p ex req cov [] sc = sc"
| "coverage_gap_loop p ex req cov (i # rest) sc =
     coverage_gap_loop p ex req cov rest
       (if float_gt (activations ex i) 0 \<and> \<not> has_bit p cov (int i)
        then fadd sc (muscle_coverage_gap (weights req)) else sc)"

definition fitness_level_score :: "Exercise \<Rightarrow> SolverRequest \<Rightarrow> real \<Rightarrow> real" where
  "fitness_level_score ex req sc =
     (if 0 \<le>s fitness_level req \<and> fitness_level req \<le>s 2 then
        (let min_diff = DIFFICULTY_MIN ! nat (sint (fitness_level req));
             max_diff = DIFFICULTY_MAX ! nat (sint (fitness_level req));
             s1 = (if min_diff \<le>s difficulty ex \<and> difficulty ex \<le>s max_diff
                   then fadd sc (fitness_level_match (weights req)) else sc)
         in if max_diff <s difficulty ex
            then fsub s1 (fmul (int_to_float (difficulty ex - max_diff)) 5) else s1)
      else sc)"

definition score_exercise :: "platform \<Rightarrow> Exercise \<Rightarrow> SolverRequest \<Rightarrow> int32 \<Rightarrow> real" where
  "score_exercise p ex req current_coverage_mask =
     (let s0 = (0::real);
          s1 = (if goals_mask req \<noteq> 0 then goal_loop p ex req [0..<5] s0 else s0);
          s2 = (if is_compound ex \<noteq> 0 then fadd s1 (compound_preference (weights req)) else s1);
          s3 = recovery_loop p ex req [0..<MAX_MUSCLES] s2;
          s4 = fitness_level_score ex req s3
      in coverage_gap_loop p ex req current_coverage_mask [0..<MAX_MUSCLES] s4)"

definition compare_scores :: "ScoredExercise \<Rightarrow> ScoredExercise \<Rightarrow> int" where
  "compare_scores a b =
     (let diff = fsub (score b) (score a)
      in if diff > 0 then 1 else if diff < 0 then - 1 else 0)"

section \<open>Time estimator: \<^verbatim>\<open>estimate_time\<close>\<close>

text \<open>
  The cast \<^verbatim>\<open>(int32_t)x\<close> of a float discards the fractional part: it truncates
  towards zero. The product \<^verbatim>\<open>ex->rest_seconds * rest_multiplier\<close> is a float
  product: the integer is converted to float, and the product is rounded.
\<close>

definition c_trunc :: "real \<Rightarrow> int" where
  "c_trunc x = (if 0 \<le> x then \<lfloor>x\<rfloor> else \<lceil>x\<rceil>)"

definition f2i :: "platform \<Rightarrow> real \<Rightarrow> int32" where
  "f2i p x = (if - (2 ^ 31) - 1 < x \<and> x < 2 ^ 31 then word_of_int (c_trunc x)
              else f2i_undef p x)"

definition estimate_time :: "platform \<Rightarrow> Exercise \<Rightarrow> int32 \<Rightarrow> int32 \<Rightarrow> real \<Rightarrow> int32" where
  "estimate_time p ex sets reps rest_multiplier =
     (let rep_duration = 3;
          rep_time = reps * rep_duration;
          rest_time = f2i p (fmul (int_to_float (rest_seconds ex)) rest_multiplier);
          setup_time = (if equipment_required_mask ex \<noteq> 0 then 30 else 0)
      in setup_time + (sets * rep_time) + ((sets - 1) * rest_time))"

section \<open>Scheduler: \<^verbatim>\<open>solve\<close>\<close>

definition warmup_cooldown :: "SolverRequest \<Rightarrow> int32" where
  "warmup_cooldown req = (if 1800 \<le>s time_available_seconds req then 300 else 120)"

text \<open>\<open>5033165 / 8388608\<close> is the single-precision value of \<^verbatim>\<open>0.6f\<close>.\<close>

definition rest_multiplier :: "platform \<Rightarrow> SolverRequest \<Rightarrow> real" where
  "rest_multiplier p req =
     (if has_bit p (goals_mask req) (int GOAL_STRENGTH) then 1.5
      else if has_bit p (goals_mask req) (int GOAL_ENDURANCE) then 0.5
      else if has_bit p (goals_mask req) (int GOAL_FAT_LOSS) then 5033165 / 8388608
      else if has_bit p (goals_mask req) (int GOAL_MOBILITY) then 0.75
      else 1)"

definition base_sets :: "platform \<Rightarrow> SolverRequest \<Rightarrow> int32" where
  "base_sets p req =
     (if has_bit p (goals_mask req) (int GOAL_STRENGTH) then 5
      else if has_bit p (goals_mask req) (int GOAL_HYPERTROPHY) then 4
      else if has_bit p (goals_mask req) (int GOAL_ENDURANCE) then 2
      else if has_bit p (goals_mask req) (int GOAL_FAT_LOSS) then 3
      else 3)"

definition base_reps :: "platform \<Rightarrow> SolverRequest \<Rightarrow> int32" where
  "base_reps p req =
     (if has_bit p (goals_mask req) (int GOAL_STRENGTH) then 4
      else if has_bit p (goals_mask req) (int GOAL_HYPERTROPHY) then 10
      else if has_bit p (goals_mask req) (int GOAL_ENDURANCE) then 20
      else if has_bit p (goals_mask req) (int GOAL_FAT_LOSS) then 14
      else 10)"

text \<open>One entry of the three output arrays.\<close>

record workout_item =
  item_index :: nat
  item_sets :: int32
  item_reps :: int32

text \<open>The variables of the selection loop; \<open>results\<close> holds the entries written so far.\<close>

record loop_state =
  time_remaining :: int32
  selected_mask :: "nat \<Rightarrow> int32"
  coverage_mask :: int32
  results :: "workout_item list"

text \<open>Scoring the candidates that are not selected yet.\<close>

fun score_remaining ::
  "platform \<Rightarrow> Exercise list \<Rightarrow> SolverRequest \<Rightarrow> loop_state \<Rightarrow> nat list \<Rightarrow> ScoredExercise list" where
  "score_remaining p exs req st [] = []"
| "score_remaining p exs req st (idx # rest) =
     (let bucket = idx div 32; bit = idx mod 32
      in if has_bit p (selected_mask st bucket) (int bit)
         then score_remaining p exs req st rest
         else \<lparr>index = idx, score = score_exercise p (exs ! idx) req (coverage_mask st)\<rparr>
                # score_remaining p exs req st rest)"

text \<open>The scan of the ranked candidates for the first one that fits.\<close>

fun first_fit ::
  "platform \<Rightarrow> Exercise list \<Rightarrow> SolverRequest \<Rightarrow> int32 \<Rightarrow> ScoredExercise list \<Rightarrow> nat option" where
  "first_fit p exs req remaining [] = None"
| "first_fit p exs req remaining (s # rest) =
     (if estimate_time p (exs ! index s) (base_sets p req) (base_reps p req)
           (rest_multiplier p req) \<le>s remaining
      then Some (index s)
      else first_fit p exs req remaining rest)"

fun update_coverage :: "platform \<Rightarrow> Exercise \<Rightarrow> nat list \<Rightarrow> int32 \<Rightarrow> int32" where
  "update_coverage p ex [] cov = cov"
| "update_coverage p ex (m # rest) cov =
     update_coverage p ex rest
       (if float_gt (activations ex m) 0 then cov OR shl1 p (int m) else cov)"

text \<open>The body of the branch that commits a selection.\<close>

definition select_exercise ::
  "platform \<Rightarrow> Exercise list \<Rightarrow> SolverRequest \<Rightarrow> loop_state \<Rightarrow> nat \<Rightarrow> loop_state" where
  "select_exercise p exs req st idx =
     (let ex = exs ! idx;
          time_needed = estimate_time p ex (base_sets p req) (base_reps p req)
                          (rest_multiplier p req);
          bucket = idx div 32; bit = idx mod 32
      in \<lparr>time_remaining = time_remaining st - time_needed,
          selected_mask = (selected_mask st)
            (bucket := selected_mask st bucket OR shl1 p (int bit)),
          coverage_mask = update_coverage p ex [0..<MAX_MUSCLES] (coverage_mask st),
          results = results st @
            [\<lparr>item_index = idx, item_sets = base_sets p req, item_reps = base_reps p req\<rparr>]\<rparr>)"

text \<open>
  One round of the \<^verbatim>\<open>while\<close> loop: \<open>None\<close> is a \<^verbatim>\<open>break\<close>, \<open>Some\<close> the state
  after a selection.
\<close>

definition solve_round ::
  "platform \<Rightarrow> Exercise list \<Rightarrow> SolverRequest \<Rightarrow> nat list \<Rightarrow> loop_state \<Rightarrow> loop_state option" where
  "solve_round p exs req valid_indices st =
     (let scored = score_remaining p exs req st valid_indices
      in if scored = [] then None
         else (case first_fit p exs req (time_remaining st) (qsort p compare_scores scored) of
                 None \<Rightarrow> None
               | Some idx \<Rightarrow> Some (select_exercise p exs req st idx)))"

definition loop_condition :: "int32 \<Rightarrow> loop_state \<Rightarrow> bool" where
  "loop_condition max_results st =
     (60 <s time_remaining st \<and> int (length (results st)) < sint max_results)"

function solve_loop ::
  "platform \<Rightarrow> Exercise list \<Rightarrow> SolverRequest \<Rightarrow> nat list \<Rightarrow> int32 \<Rightarrow> loop_state \<Rightarrow> loop_state" where
  "solve_loop p exs req valid_indices max_results st =
     (if loop_condition max_results st then
        (let scored = score_remaining p exs req st valid_indices
         in if scored = [] then st
            else (case first_fit p exs req (time_remaining st) (qsort p compare_scores scored) of
                    None \<Rightarrow> st
                  | Some idx \<Rightarrow>
                      solve_loop p exs req valid_indices max_results
                        (select_exercise p exs req st idx)))
      else st)"
  by pat_completeness auto
termination
  by (relation "measure (\<lambda>(p, exs, req, valid_indices, max_results, st).
        nat (sint max_results) - length (results st))")
    (auto simp add: loop_condition_def select_exercise_def Let_def)

definition initial_loop_state :: "SolverRequest \<Rightarrow> loop_state" where
  "initial_loop_state req =
     \<lparr>time_remaining = time_available_seconds req - warmup_cooldown req,
      selected_mask = (\<lambda>_. 0),
      coverage_mask = 0,
      results = []\<rparr>"

definition valid_indices_of :: "platform \<Rightarrow> Exercise list \<Rightarrow> SolverRequest \<Rightarrow> nat list" where
  "valid_indices_of p exs req =
     filter (\<lambda>i. passes_hard_filters p (exs ! i) req) [0..<length exs]"

text \<open>
  \<^verbatim>\<open>solve\<close> on the catalog \<open>exs\<close> (the first \<^verbatim>\<open>g_exercise_count\<close> entries of
  \<^verbatim>\<open>g_exercises\<close>); the result is the filled part of the output arrays.
\<close>

definition solve :: "platform \<Rightarrow> Exercise list \<Rightarrow> SolverRequest \<Rightarrow> int32 \<Rightarrow> workout_item list" where
  "solve p exs req max_results =
     (if length exs = 0 then []
      else (let valid_indices = valid_indices_of p exs req
            in if length valid_indices = 0 then []
               else results (solve_loop p exs req valid_indices max_results
                               (initial_loop_state req))))"

text \<open>
  The states at the head of the loop, round after round: the state a call starts from,
  then the state after each selection.
\<close>

function solve_trace ::
  "platform \<Rightarrow> Exercise list \<Rightarrow> SolverRequest \<Rightarrow> nat list \<Rightarrow> int32 \<Rightarrow> loop_state \<Rightarrow> loop_state list" where
  "solve_trace p exs req valid_indices max_results st =
     st # (if loop_condition max_results st then
             (case solve_round p exs req valid_indices st of
                None \<Rightarrow> []
              | Some st' \<Rightarrow> solve_trace p exs req valid_indices max_results st')
           else [])"
  by pat_completeness auto
termination
  by (relation "measure (\<lambda>(p, exs, req, valid_indices, max_results, st).
        nat (sint max_results) - length (results st))")
    (auto simp add: loop_condition_def solve_round_def select_exercise_def Let_def
       split: if_splits option.splits)

declare solve_loop.simps [simp del] solve_trace.simps [simp del]


section \<open>The boundary: \<^verbatim>\<open>InitExercises\<close>, \<^verbatim>\<open>Solve\<close>, \<^verbatim>\<open>ScoreBatch\<close>\<close>

text \<open>
  The global catalog. \<open>g_exercises\<close> holds the first \<^verbatim>\<open>g_exercise_count\<close> entries
  of the array, the only ones the code reads.
\<close>

record solver_state =
  g_exercises :: "Exercise list"
  g_initialized :: int32

definition g_exercise_count :: "solver_state \<Rightarrow> nat" where
  "g_exercise_count st = length (g_exercises st)"

definition startup_state :: solver_state where
  "startup_state = \<lparr>g_exercises = [], g_initialized = 0\<rparr>"

text \<open>An error thrown to the JavaScript caller, with its message.\<close>

datatype napi_error = Js_Error string

text \<open>The argument of \<^verbatim>\<open>InitExercises\<close> as the caller passes it.\<close>

datatype 'a js_argument = Js_Missing | Js_Not_Array | Js_Array "'a list"

text \<open>
  An element of the JavaScript catalog, by its properties; \<open>obj_activations\<close> is
  \<open>None\<close> when the property is not an array, and holds the numbers (doubles) of the
  array otherwise.
\<close>

record ExerciseObject =
  obj_id :: int32
  obj_difficulty :: int32
  obj_isCompound :: bool
  obj_movementPattern :: int32
  obj_estimatedSeconds :: int32
  obj_restSeconds :: int32
  obj_locationsMask :: int32
  obj_equipmentRequiredMask :: int32
  obj_primaryMusclesMask :: int32
  obj_activations :: "c_float list option"

definition load_exercise :: "ExerciseObject \<Rightarrow> Exercise" where
  "load_exercise elem =
     \<lparr>exercise_id = obj_id elem,
      difficulty = obj_difficulty elem,
      is_compound = (if obj_isCompound elem then 1 else 0),
      movement_pattern = obj_movementPattern elem,
      estimated_seconds = obj_estimatedSeconds elem,
      rest_seconds = obj_restSeconds elem,
      activations =
        (case obj_activations elem of
           None \<Rightarrow> (\<lambda>_. Finite 0)
         | Some acts \<Rightarrow>
             (\<lambda>j. if j < min (length acts) MAX_MUSCLES then double_to_float (acts ! j)
                  else Finite 0)),
      primary_muscles_mask = obj_primaryMusclesMask elem,
      locations_mask = obj_locationsMask elem,
      equipment_required_mask = obj_equipmentRequiredMask elem\<rparr>"

definition InitExercises ::
  "solver_state \<Rightarrow> ExerciseObject js_argument \<Rightarrow> (napi_error + nat) \<times> solver_state" where
  "InitExercises st arg =
     (case arg of
        Js_Missing \<Rightarrow> (Inl (Js_Error ''Expected exercises array''), st)
      | Js_Not_Array \<Rightarrow> (Inl (Js_Error ''Expected array''), st)
      | Js_Array elems \<Rightarrow>
          (let exs = map load_exercise (take MAX_EXERCISES elems)
           in (Inr (length exs), \<lparr>g_exercises = exs, g_initialized = 1\<rparr>)))"

text \<open>
  The request object of the caller, by its properties. \<open>req_weights\<close> stands for a
  \<^verbatim>\<open>weights\<close> property the caller may have put into the object.
\<close>

record RequestObject =
  req_timeAvailableSeconds :: int32
  req_location :: int32
  req_equipmentMask :: int32
  req_goalsMask :: int32
  req_fitnessLevel :: int32
  req_excludedMusclesMask :: int32
  req_recent24hMusclesMask :: int32
  req_recent48hMusclesMask :: int32
  req_excludedExercisesMask :: "int32 list option"
  req_weights :: "ScoringWeights option"

definition default_weights :: ScoringWeights where
  "default_weights =
     \<lparr>goal_alignment = 10, compound_preference = 5, recovery_penalty_24h = - 20,
      recovery_penalty_48h = - 10, fitness_level_match = 5, muscle_coverage_gap = 15\<rparr>"

text \<open>The \<^verbatim>\<open>SolverRequest\<close> that \<^verbatim>\<open>Solve\<close> fills in.\<close>

definition solve_request :: "RequestObject \<Rightarrow> SolverRequest" where
  "solve_request obj =
     \<lparr>time_available_seconds = req_timeAvailableSeconds obj,
      location = req_location obj,
      equipment_mask = req_equipmentMask obj,
      goals_mask = req_goalsMask obj,
      fitness_level = req_fitnessLevel obj,
      excluded_exercises_mask =
        (case req_excludedExercisesMask obj of
           None \<Rightarrow> (\<lambda>_. 0)
         | Some ws \<Rightarrow> (\<lambda>i. if i < min (length ws) 16 then ws ! i else 0)),
      excluded_muscles_mask = req_excludedMusclesMask obj,
      recent_24h_muscles_mask = req_recent24hMusclesMask obj,
      recent_48h_muscles_mask = req_recent48hMusclesMask obj,
      weights = default_weights\<rparr>"

definition Solve ::
  "platform \<Rightarrow> solver_state \<Rightarrow> RequestObject option \<Rightarrow> napi_error + workout_item list" where
  "Solve p st arg =
     (if g_initialized st = 0 \<or> g_exercise_count st = 0
      then Inl (Js_Error ''Exercises not initialized. Call initExercises first.'')
      else (case arg of
              None \<Rightarrow> Inl (Js_Error ''Expected request object'')
            | Some obj \<Rightarrow>
                Inr (solve p (g_exercises st) (solve_request obj) (of_nat MAX_EXERCISES))))"

text \<open>The \<^verbatim>\<open>SolverRequest\<close> that \<^verbatim>\<open>ScoreBatch\<close> fills in: four properties only.\<close>

definition score_request :: "RequestObject \<Rightarrow> SolverRequest" where
  "score_request obj =
     \<lparr>time_available_seconds = 0,
      location = 0,
      equipment_mask = 0,
      goals_mask = req_goalsMask obj,
      fitness_level = req_fitnessLevel obj,
      excluded_exercises_mask = (\<lambda>_. 0),
      excluded_muscles_mask = 0,
      recent_24h_muscles_mask = req_recent24hMusclesMask obj,
      recent_48h_muscles_mask = req_recent48hMusclesMask obj,
      weights = default_weights\<rparr>"

definition ScoreBatch ::
  "platform \<Rightarrow> solver_state \<Rightarrow> int32 list \<Rightarrow> RequestObject \<Rightarrow> napi_error + real list" where
  "ScoreBatch p st indices obj =
     (if g_initialized st = 0 then Inl (Js_Error ''Not initialized'')
      else Inr (map (\<lambda>idx.
                  if 0 \<le>s idx \<and> sint idx < int (g_exercise_count st)
                  then score_exercise p (g_exercises st ! nat (sint idx)) (score_request obj) 0
                  else 0) indices))"

text \<open>
  A history of \<^verbatim>\<open>InitExercises\<close> calls from the start of the process, and the arrays
  of the calls that succeeded.
\<close>

definition load_calls :: "solver_state \<Rightarrow> ExerciseObject js_argument list \<Rightarrow> solver_state" where
  "load_calls st args = foldl (\<lambda>s a. snd (InitExercises s a)) st args"

definition loaded_arrays :: "ExerciseObject js_argument list \<Rightarrow> ExerciseObject list list" where
  "loaded_arrays args = concat (map (\<lambda>a. case a of Js_Array elems \<Rightarrow> [elems] | _ \<Rightarrow> []) args)"

section \<open>A reference platform and sample data\<close>

text \<open>
  A platform as common hardware behaves: a shift count is taken modulo 32, the five
  words in front of \<^verbatim>\<open>excluded_exercises_mask\<close> are the fields the structure declares
  before it, a float out of range converts to the least \<^verbatim>\<open>int32_t\<close>, and the sort is
  a stable insertion sort.
\<close>

fun insert_scored ::
  "(ScoredExercise \<Rightarrow> ScoredExercise \<Rightarrow> int) \<Rightarrow> ScoredExercise \<Rightarrow> ScoredExercise list \<Rightarrow> ScoredExercise list" where
  "insert_scored cmp x [] = [x]"
| "insert_scored cmp x (y # ys) =
     (if cmp x y \<le> 0 then x # y # ys else y # insert_scored cmp x ys)"

fun insertion_sort ::
  "(ScoredExercise \<Rightarrow> ScoredExercise \<Rightarrow> int) \<Rightarrow> ScoredExercise list \<Rightarrow> ScoredExercise list" where
  "insertion_sort cmp [] = []"
| "insertion_sort cmp (x # xs) = insert_scored cmp x (insertion_sort cmp xs)"

definition reference_platform :: platform where
  "reference_platform =
     \<lparr>shl_undef = (\<lambda>n. push_bit (nat (n mod 32)) 1),
      load_undef = (\<lambda>req b.
        if b = - 1 then fitness_level req
        else if b = - 2 then goals_mask req
        else if b = - 3 then equipment_mask req
        else if b = - 4 then location req
        else if b = - 5 then time_available_seconds req
        else 0),
      f2i_undef = (\<lambda>_. push_bit 31 1),
      qsort = insertion_sort\<rparr>"

text \<open>
  The exercise of the spec's scenario: a compound push exercise of difficulty 2, no
  equipment, for gym and home, chest (muscle 0) at 80 and triceps (muscle 1) at 40.
\<close>

definition push_up_object :: ExerciseObject where
  "push_up_object =
     \<lparr>obj_id = 7, obj_difficulty = 2, obj_isCompound = True, obj_movementPattern = 0,
      obj_estimatedSeconds = 45, obj_restSeconds = 60, obj_locationsMask = 3,
      obj_equipmentRequiredMask = 0, obj_primaryMusclesMask = 1,
      obj_activations = Some [Finite 80, Finite 40]\<rparr>"

definition push_up :: Exercise where
  "push_up = load_exercise push_up_object"

text \<open>A barbell squat: gym only, needs equipment 0, quadriceps (muscle 2) at 90.\<close>

definition squat_object :: ExerciseObject where
  "squat_object =
     \<lparr>obj_id = 600, obj_difficulty = 3, obj_isCompound = True, obj_movementPattern = 2,
      obj_estimatedSeconds = 60, obj_restSeconds = 3, obj_locationsMask = 1,
      obj_equipmentRequiredMask = 1, obj_primaryMusclesMask = 4,
      obj_activations = Some [Finite 0, Finite 0, Finite 90]\<rparr>"

definition squat :: Exercise where
  "squat = load_exercise squat_object"

text \<open>
  The request of the spec's scenario: 600 seconds at home, intermediate, goal
  hypertrophy.
\<close>

definition home_request_object :: RequestObject where
  "home_request_object =
     \<lparr>req_timeAvailableSeconds = 600, req_location = 1, req_equipmentMask = 0,
      req_goalsMask = 2, req_fitnessLevel = 1, req_excludedMusclesMask = 0,
      req_recent24hMusclesMask = 0, req_recent48hMusclesMask = 0,
      req_excludedExercisesMask = None, req_weights = None\<rparr>"

text \<open>The same request at the gym, with 3000 seconds.\<close>

definition gym_request_object :: RequestObject where
  "gym_request_object =
     home_request_object\<lparr>req_timeAvailableSeconds := 3000, req_location := 0\<rparr>"

definition gym_request :: SolverRequest where
  "gym_request = solve_request gym_request_object"

definition home_request :: SolverRequest where
  "home_request = solve_request home_request_object"








text \<open>An exercise with a rest of 5592409 seconds, for the rounding of the rest time.\<close>

definition long_rest :: Exercise where
  "long_rest = load_exercise (push_up_object\<lparr>obj_restSeconds := 5592409\<rparr>)"

section \<open>The conditions of the filter in the specification's words\<close>


section \<open>Invariants of the selection loop\<close>

text \<open>
  The invariant of the selection mask: the indices written to the output are distinct,
  and bit \<open>j mod 32\<close> of word \<open>j div 32\<close> is set exactly for the indices \<open>j\<close> written
  so far.
\<close>

definition selection_invariant :: "loop_state \<Rightarrow> bool" where
  "selection_invariant st =
     (distinct (map item_index (results st)) \<and>
      (\<forall>j. bit (selected_mask st (j div 32)) (j mod 32) = (j \<in> item_index ` set (results st))))"


section \<open>Properties of the rounding\<close>

text \<open>
  For a value of magnitude at least \<open>2 powi - 126\<close> the exponent is that of its binade,
  so that \<open>to_float\<close> keeps 24 significant bits.
\<close>

lemma ilog2_bounds:
  "1 \<le> n \<Longrightarrow> 0 \<le> ilog2 n \<and> 2 ^ nat (ilog2 n) \<le> n \<and> n < 2 * 2 ^ nat (ilog2 n)"
proof (induction n rule: ilog2.induct)
  case (1 n)
  show ?case
  proof (cases "n < 2")
    case True
    with "1.prems" have n: "n = 1" by simp
    have "ilog2 1 = 0" by (subst ilog2.simps) simp
    with n show ?thesis by simp
  next
    case False
    then have h: "1 \<le> n div 2" by simp
    from "1.IH" [OF False h]
    have ih: "0 \<le> ilog2 (n div 2)" "2 ^ nat (ilog2 (n div 2)) \<le> n div 2"
      "n div 2 < 2 * 2 ^ nat (ilog2 (n div 2))"
      by simp_all
    have e: "ilog2 n = 1 + ilog2 (n div 2)"
      using False by (subst ilog2.simps) simp
    have p: "(2::int) ^ nat (1 + ilog2 (n div 2)) = 2 * 2 ^ nat (ilog2 (n div 2))"
      using ih(1) by (simp add: nat_add_distrib)
    show ?thesis
      unfolding e p using ih by auto
  qed
qed

lemma exponent_below_bounds:
  assumes "pw = 2 powi e" and "x < 2 * pw" and "2 powi (e - int n) \<le> x"
  shows "2 powi (exponent_below n x e pw) \<le> x \<and> x < 2 * 2 powi (exponent_below n x e pw)"
  using assms
proof (induction n arbitrary: e pw)
  case 0
  then show ?case by simp
next
  case (Suc n)
  show ?case
  proof (cases "pw \<le> x")
    case True
    with Suc.prems show ?thesis by simp
  next
    case False
    have h: "pw / 2 = 2 powi (e - 1)"
      using Suc.prems(1) by (simp add: power_int_diff)
    have "2 powi (e - 1 - int n) \<le> x"
      using Suc.prems(3) by (simp add: algebra_simps)
    from Suc.IH [OF h _ this] False show ?thesis
      by simp
  qed
qed

lemma float_exponent_bounds:
  assumes "2 powi (- 126) \<le> \<bar>x\<bar>"
  shows "2 powi float_exponent x \<le> \<bar>x\<bar> \<and> \<bar>x\<bar> < 2 * 2 powi float_exponent x"
proof (cases "1 \<le> \<bar>x\<bar>")
  case True
  let ?n = "\<lfloor>\<bar>x\<bar>\<rfloor>"
  from True have n: "1 \<le> ?n" by simp
  from ilog2_bounds [OF n]
  have b: "0 \<le> ilog2 ?n" "2 ^ nat (ilog2 ?n) \<le> ?n" "?n < 2 * 2 ^ nat (ilog2 ?n)"
    by simp_all
  have p: "(2::real) powi ilog2 ?n = 2 ^ nat (ilog2 ?n)"
    using b(1) by (simp add: power_int_def)
  have "real_of_int (2 ^ nat (ilog2 ?n)) \<le> \<bar>x\<bar>"
    using b(2) by (meson le_floor_iff)
  moreover have "\<bar>x\<bar> < real_of_int (2 * 2 ^ nat (ilog2 ?n))"
    using b(3) by (meson floor_less_iff)
  ultimately show ?thesis
    using True by (simp add: float_exponent_def p)
next
  case False
  have "2 powi (exponent_below 125 \<bar>x\<bar> (- 1) (1 / 2)) \<le> \<bar>x\<bar> \<and>
        \<bar>x\<bar> < 2 * 2 powi (exponent_below 125 \<bar>x\<bar> (- 1) (1 / 2))"
  proof (rule exponent_below_bounds)
    show "(1 / 2 :: real) = 2 powi (- 1)" by (simp add: power_int_minus)
    show "\<bar>x\<bar> < 2 * (1 / 2)" using False by simp
    show "2 powi (- 1 - int 125) \<le> \<bar>x\<bar>" using assms by simp
  qed
  then show ?thesis
    using False by (simp add: float_exponent_def)
qed

text \<open>
  Values of \<open>to_float\<close>: the constant \<^verbatim>\<open>0.6f\<close>, a product that rounds up to an
  integer, a tie that goes to the even neighbour, and an integer beyond 24 bits.
\<close>

lemma to_float_values:
  "to_float (6 / 10) = 5033165 / 8388608"
  "to_float (10 * (11744051 / 16777216)) = 7"
  "to_float (5592409 * (3 / 2)) = 8388614"
  "to_float 16777217 = 16777216"
  by code_simp+

section \<open>Properties of the filter\<close>

lemma has_bit_in_range:
  "0 \<le> n \<Longrightarrow> n < 32 \<Longrightarrow> has_bit p w n = bit w (nat n)"
  by (simp add: has_bit_def shl1_def and_exp_eq_0_iff_not_bit)

lemma activations_pass_iff:
  "activations_pass p ex req ms =
     (\<forall>m \<in> set ms. has_bit p (excluded_muscles_mask req) (int m)
         \<longrightarrow> \<not> float_gt (activations ex m) 40)"
  by (induction ms) auto









lemma activations_pass_excl_upd:
  "activations_pass p ex (req\<lparr>excluded_exercises_mask := m\<rparr>) ms = activations_pass p ex req ms"
  by (simp add: activations_pass_iff)

lemma c_div_large: "512 \<le> a \<Longrightarrow> 16 \<le> c_div a 32"
  by (simp add: c_div_def)

text \<open>
  C10. An exercise whose id is 512 or more is never removed by the excluded-exercises
  lookup, whatever the request's bit-set holds: its bucket is at least 16, so the lookup
  is skipped, and the filter's verdict does not depend on the bit-set. The catalog loads
  such an id as it is.
\<close>

theorem large_id_never_excluded:
  assumes "512 \<le> sint (exercise_id ex)"
  shows "\<not> exercise_excluded p ex req \<and>
         passes_hard_filters p ex (req\<lparr>excluded_exercises_mask := m\<rparr>) = passes_hard_filters p ex req"
proof -
  have "\<not> exercise_excluded p ex r" for r
    using c_div_large [OF assms] by (simp add: exercise_excluded_def Let_def)
  then show ?thesis
    by (simp add: passes_hard_filters_def activations_pass_excl_upd)
qed

theorem large_id_never_excluded_witness:
  "512 \<le> sint (exercise_id squat) \<and>
   \<not> exercise_excluded reference_platform squat
       (home_request\<lparr>excluded_exercises_mask := (\<lambda>_. - 1)\<rparr>) \<and>
   passes_hard_filters reference_platform squat
       (home_request\<lparr>excluded_exercises_mask := (\<lambda>_. - 1)\<rparr>)
     = passes_hard_filters reference_platform squat home_request \<and>
   g_exercises (snd (InitExercises startup_state (Js_Array [squat_object]))) = [squat]"
proof -
  have h: "512 \<le> sint (exercise_id squat)"
    by code_simp
  have l: "g_exercises (snd (InitExercises startup_state (Js_Array [squat_object]))) = [squat]"
    by (simp add: InitExercises_def squat_def MAX_EXERCISES_def)
  from large_id_never_excluded [OF h] h l show ?thesis
    by blast
qed

section \<open>Properties of the time estimator\<close>

text \<open>
  C4 as stated fails: the rest time is not rounded to the nearest integer. For the squat
  (rest of 3 seconds, equipment needed) with 2 sets of 20 repetitions and the endurance
  multiplier 0.5, the code returns 151, where the formula with rounding gives 152.
\<close>

theorem estimate_time_round_counterexample:
  "sint (estimate_time reference_platform squat 2 20 (1/2)) = 151 \<and>
   (if equipment_required_mask squat \<noteq> 0 then 30 else 0) + 2 * (20 * 3)
      + (2 - 1) * round (real_of_int (sint (rest_seconds squat)) * (1/2)) = (152::int)"
  by code_simp

text \<open>
  C4, amended. When the float product of the rest seconds and the multiplier is in the
  range of \<^verbatim>\<open>int32_t\<close>, \<^verbatim>\<open>estimate_time\<close> returns, in 32-bit arithmetic,
  setup + sets * (reps * 3) + (sets - 1) * rest, where setup is 30 if the exercise needs
  equipment and 0 otherwise, and rest is the single-precision product (the rest seconds
  converted to float, times the multiplier, rounded to float) with its fractional part
  discarded, that is truncated towards zero.
\<close>

theorem estimate_time_truncates:
  assumes "- (2 ^ 31) - 1 < fmul (int_to_float (rest_seconds ex)) rm"
    and "fmul (int_to_float (rest_seconds ex)) rm < 2 ^ 31"
  shows "estimate_time p ex sets reps rm =
     (if equipment_required_mask ex \<noteq> 0 then 30 else 0) + sets * (reps * 3)
       + (sets - 1) * word_of_int
           (if 0 \<le> fmul (int_to_float (rest_seconds ex)) rm
            then \<lfloor>fmul (int_to_float (rest_seconds ex)) rm\<rfloor>
            else \<lceil>fmul (int_to_float (rest_seconds ex)) rm\<rceil>)"
  using assms by (simp add: estimate_time_def f2i_def c_trunc_def Let_def)

text \<open>
  The witness is a product that single precision rounds before the cast: 5592409 * 1.5
  is 8388613.5, the float product is 8388614, and 5 sets of 4 repetitions take
  60 + 4 * 8388614 seconds.
\<close>

theorem estimate_time_truncates_witness:
  "- (2 ^ 31) - 1 < fmul (int_to_float (rest_seconds long_rest)) (3/2) \<and>
   fmul (int_to_float (rest_seconds long_rest)) (3/2) < 2 ^ 31 \<and>
   fmul (int_to_float (rest_seconds long_rest)) (3/2) = 8388614 \<and>
   estimate_time reference_platform long_rest 5 4 (3/2) = 33554516"
proof -
  have v: "fmul (int_to_float (rest_seconds long_rest)) (3/2) = 8388614"
    by code_simp
  have a: "- (2 ^ 31) - 1 < fmul (int_to_float (rest_seconds long_rest)) (3/2)"
    unfolding v by simp
  have b: "fmul (int_to_float (rest_seconds long_rest)) (3/2) < 2 ^ 31"
    unfolding v by simp
  have e: "equipment_required_mask long_rest = 0"
    by code_simp
  from estimate_time_truncates [OF a b, of reference_platform 5 4] a b v show ?thesis
    unfolding v e by simp
qed

section \<open>Properties of the selection loop\<close>

lemma first_fit_Some:
  "first_fit p exs req remaining scored = Some idx \<Longrightarrow>
   idx \<in> index ` set scored \<and>
   estimate_time p (exs ! idx) (base_sets p req) (base_reps p req) (rest_multiplier p req)
     \<le>s remaining"
  by (induction scored) (auto split: if_splits)

lemma score_remaining_index:
  "s \<in> set (score_remaining p exs req st valid) \<Longrightarrow>
   index s \<in> set valid \<and> \<not> bit (selected_mask st (index s div 32)) (index s mod 32)"
  by (induction valid) (auto simp add: Let_def has_bit_in_range split: if_splits)

lemma select_exercise_results:
  "results (select_exercise p exs req st idx) =
     results st @ [\<lparr>item_index = idx, item_sets = base_sets p req, item_reps = base_reps p req\<rparr>]"
  by (simp add: select_exercise_def Let_def)

lemma solve_loop_unfold:
  "solve_loop p exs req valid max_results st =
     (if loop_condition max_results st then
        (case first_fit p exs req (time_remaining st)
                (qsort p compare_scores (score_remaining p exs req st valid)) of
           None \<Rightarrow> st
         | Some idx \<Rightarrow>
             if score_remaining p exs req st valid = [] then st
             else solve_loop p exs req valid max_results (select_exercise p exs req st idx))
      else st)"
  by (subst solve_loop.simps) (simp add: Let_def split: option.split)

text \<open>An invariant of the loop head holds of the state the loop ends in.\<close>

lemma solve_loop_invariant:
  assumes "I st"
    and "\<And>s idx. I s \<Longrightarrow> loop_condition max_results s \<Longrightarrow>
           first_fit p exs req (time_remaining s)
             (qsort p compare_scores (score_remaining p exs req s valid)) = Some idx \<Longrightarrow>
           I (select_exercise p exs req s idx)"
  shows "I (solve_loop p exs req valid max_results st)"
  using assms
proof (induction p exs req valid max_results st rule: solve_loop.induct)
  case (1 p exs req valid max_results st)
  note step = "1.prems"(2)
  let ?ff = "first_fit p exs req (time_remaining st)
               (qsort p compare_scores (score_remaining p exs req st valid))"
  show ?case
  proof (cases "loop_condition max_results st")
    case False
    then have "solve_loop p exs req valid max_results st = st"
      by (subst solve_loop_unfold) simp
    then show ?thesis
      using "1.prems"(1) by simp
  next
    case True
    show ?thesis
    proof (cases ?ff)
      case None
      then have "solve_loop p exs req valid max_results st = st"
        using True by (subst solve_loop_unfold) simp
      then show ?thesis
        using "1.prems"(1) by simp
    next
      case (Some idx)
      show ?thesis
      proof (cases "score_remaining p exs req st valid = []")
        case e: True
        then have "solve_loop p exs req valid max_results st = st"
          using True Some by (subst solve_loop_unfold) simp
        then show ?thesis
          using "1.prems"(1) by simp
      next
        case ne: False
        have sel: "I (select_exercise p exs req st idx)"
          by (rule step [OF "1.prems"(1) True Some])
        have "I (solve_loop p exs req valid max_results (select_exercise p exs req st idx))"
          by (rule "1.IH" [OF True refl ne Some sel step])
        moreover have "solve_loop p exs req valid max_results st =
            solve_loop p exs req valid max_results (select_exercise p exs req st idx)"
          using True Some ne by (subst solve_loop_unfold) simp
        ultimately show ?thesis
          by simp
      qed
    qed
  qed
qed

section \<open>Properties of the scheduler's goal table\<close>

lemma goal_bits:
  "has_bit p g (int GOAL_STRENGTH) = bit g 0"
  "has_bit p g (int GOAL_HYPERTROPHY) = bit g 1"
  "has_bit p g (int GOAL_ENDURANCE) = bit g 2"
  "has_bit p g (int GOAL_MOBILITY) = bit g 3"
  "has_bit p g (int GOAL_FAT_LOSS) = bit g 4"
  by (simp_all add: has_bit_in_range GOAL_STRENGTH_def GOAL_HYPERTROPHY_def
      GOAL_ENDURANCE_def GOAL_MOBILITY_def GOAL_FAT_LOSS_def)

lemma solve_loop_sets_reps:
  assumes "\<forall>it \<in> set (results st). item_sets it = base_sets p req \<and> item_reps it = base_reps p req"
  shows "\<forall>it \<in> set (results (solve_loop p exs req valid mr st)).
           item_sets it = base_sets p req \<and> item_reps it = base_reps p req"
  using assms
proof (rule solve_loop_invariant
    [where I = "\<lambda>s. \<forall>it \<in> set (results s).
                  item_sets it = base_sets p req \<and> item_reps it = base_reps p req"])
  fix s :: loop_state and idx :: nat
  assume "\<forall>it \<in> set (results s). item_sets it = base_sets p req \<and> item_reps it = base_reps p req"
  then show "\<forall>it \<in> set (results (select_exercise p exs req s idx)).
               item_sets it = base_sets p req \<and> item_reps it = base_reps p req"
    by (simp add: select_exercise_results)
qed

text \<open>
  C3 as stated fails: hypertrophy has an entry of its own in the table of sets and
  repetitions. The request of the spec's scenario, whose only goal is hypertrophy
  (goals mask 2), gets 4 sets of 10, not 3 sets of 10.
\<close>

theorem hypertrophy_sets_counterexample:
  "goals_mask home_request = 2 \<and>
   base_sets reference_platform home_request = 4 \<and>
   base_reps reference_platform home_request = 10 \<and>
   solve reference_platform [push_up] home_request 500
     = [\<lparr>item_index = 0, item_sets = 4, item_reps = 10\<rparr>]"
  by code_simp

text \<open>
  C3, amended. \<^verbatim>\<open>solve\<close> takes the sets and repetitions from the first goal bit set
  in the order strength, hypertrophy, endurance, fat loss: strength gives (5, 4),
  hypertrophy (4, 10), endurance (2, 20), fat loss (3, 14), and (3, 10) otherwise, which
  covers mobility; every entry of the output carries these two numbers.
\<close>

theorem solve_sets_reps:
  "base_sets p req =
     (if bit (goals_mask req) 0 then 5 else if bit (goals_mask req) 1 then 4
      else if bit (goals_mask req) 2 then 2 else if bit (goals_mask req) 4 then 3 else 3) \<and>
   base_reps p req =
     (if bit (goals_mask req) 0 then 4 else if bit (goals_mask req) 1 then 10
      else if bit (goals_mask req) 2 then 20 else if bit (goals_mask req) 4 then 14 else 10) \<and>
   (\<forall>it \<in> set (solve p exs req max_results).
      item_sets it = base_sets p req \<and> item_reps it = base_reps p req)"
proof -
  have "\<forall>it \<in> set (results (solve_loop p exs req valid max_results (initial_loop_state req))).
          item_sets it = base_sets p req \<and> item_reps it = base_reps p req" for valid
    by (rule solve_loop_sets_reps) (simp add: initial_loop_state_def)
  then show ?thesis
    by (simp add: base_sets_def base_reps_def goal_bits solve_def Let_def)
qed

theorem solve_sets_reps_witness:
  "solve reference_platform [push_up] (home_request\<lparr>goals_mask := 20\<rparr>) 500 \<noteq> [] \<and>
   item_sets (hd (solve reference_platform [push_up] (home_request\<lparr>goals_mask := 20\<rparr>) 500)) = 2 \<and>
   item_reps (hd (solve reference_platform [push_up] (home_request\<lparr>goals_mask := 20\<rparr>) 500)) = 20"
proof -
  let ?r = "home_request\<lparr>goals_mask := 20\<rparr>"
  let ?out = "solve reference_platform [push_up] ?r 500"
  have n: "?out \<noteq> []"
    by code_simp
  then have m: "hd ?out \<in> set ?out"
    by (rule hd_in_set)
  have b: "base_sets reference_platform ?r = 2" "base_reps reference_platform ?r = 20"
    by code_simp+
  from solve_sets_reps [of reference_platform ?r "[push_up]" 500]
  have "\<forall>it \<in> set ?out. item_sets it = base_sets reference_platform ?r \<and>
          item_reps it = base_reps reference_platform ?r"
    by blast
  with m have "item_sets (hd ?out) = base_sets reference_platform ?r"
    "item_reps (hd ?out) = base_reps reference_platform ?r"
    by blast+
  with b n show ?thesis
    by (simp only: simp_thms)
qed

section \<open>Properties of the time budget\<close>









section \<open>Properties of the selection mask\<close>

lemma div_mod_32_eq: "(j div 32 = i div 32 \<and> j mod 32 = i mod 32) = (j = (i::nat))"
  by (metis div_mult_mod_eq)

lemma bit_one_shifted: "bit (2 ^ m :: int32) n = (n = m \<and> m < 32)"
  by (auto simp add: bit_simps)

lemma select_exercise_selected:
  "bit (selected_mask (select_exercise p exs req st idx) (j div 32)) (j mod 32) =
     (bit (selected_mask st (j div 32)) (j mod 32) \<or> j = idx)"
proof -
  have "shl1 p (int (idx mod 32)) = 2 ^ (idx mod 32)"
    by (simp add: shl1_def)
  then show ?thesis
    using div_mod_32_eq [of j idx]
    by (auto simp add: select_exercise_def Let_def bit_or_iff bit_one_shifted)
qed

lemma selection_invariant_step:
  assumes inv: "selection_invariant st"
    and sub: "\<And>xs. set (qsort p compare_scores xs) \<subseteq> set xs"
    and ff: "first_fit p exs req (time_remaining st)
               (qsort p compare_scores (score_remaining p exs req st valid)) = Some idx"
  shows "selection_invariant (select_exercise p exs req st idx)"
proof -
  from first_fit_Some [OF ff] obtain s
    where "s \<in> set (qsort p compare_scores (score_remaining p exs req st valid))"
      and idx: "index s = idx"
    by auto
  with sub have "s \<in> set (score_remaining p exs req st valid)"
    by blast
  from score_remaining_index [OF this] idx
  have "\<not> bit (selected_mask st (idx div 32)) (idx mod 32)"
    by simp
  with inv have fresh: "idx \<notin> item_index ` set (results st)"
    by (simp add: selection_invariant_def)
  show ?thesis
    unfolding selection_invariant_def select_exercise_selected
    using inv fresh
    by (auto simp add: selection_invariant_def select_exercise_results)
qed

text \<open>
  C7. For a catalog that fits the array of 500 entries and a sorting routine that
  returns no element it was not given, no exercise index occurs twice in the output of
  \<^verbatim>\<open>solve\<close>: the bits of the selection mask are exactly the indices written so far,
  and a candidate whose bit is set is not scored again.
\<close>

theorem solve_no_duplicates:
  assumes "\<And>xs. set (qsort p compare_scores xs) \<subseteq> set xs"
    and "length exs \<le> MAX_EXERCISES"
  shows "distinct (map item_index (solve p exs req max_results))"
proof -
  have "selection_invariant (solve_loop p exs req valid max_results (initial_loop_state req))"
    for valid
  proof (rule solve_loop_invariant)
    show "selection_invariant (initial_loop_state req)"
      by (simp add: selection_invariant_def initial_loop_state_def)
  next
    fix s idx
    assume i: "selection_invariant s"
      and f: "first_fit p exs req (time_remaining s)
             (qsort p compare_scores (score_remaining p exs req s valid)) = Some idx"
    show "selection_invariant (select_exercise p exs req s idx)"
      by (rule selection_invariant_step [OF i assms(1) f])
  qed
  then show ?thesis
    by (simp add: solve_def Let_def selection_invariant_def)
qed

lemma set_insert_scored: "set (insert_scored cmp x xs) = insert x (set xs)"
  by (induction xs) auto

lemma set_insertion_sort: "set (insertion_sort cmp xs) = set xs"
  by (induction xs) (simp_all add: set_insert_scored)

theorem solve_no_duplicates_witness:
  "length [push_up, squat] \<le> MAX_EXERCISES \<and>
   map item_index (solve reference_platform [push_up, squat] gym_request 500) = [0, 1] \<and>
   distinct (map item_index (solve reference_platform [push_up, squat] gym_request 500))"
proof -
  have q: "set (qsort reference_platform compare_scores xs) \<subseteq> set xs" for xs
    by (simp add: reference_platform_def set_insertion_sort)
  have l: "length [push_up, squat] \<le> MAX_EXERCISES"
    by (simp add: MAX_EXERCISES_def)
  have e: "map item_index (solve reference_platform [push_up, squat] gym_request 500) = [0, 1]"
    by code_simp
  from solve_no_duplicates [OF q l, of gym_request 500] l e show ?thesis
    by blast
qed

section \<open>Properties of the coverage mask\<close>

lemma update_coverage_bits:
  "bit (update_coverage p ex ms cov) n \<longleftrightarrow>
     bit cov n \<or> (\<exists>m \<in> set ms. float_gt (activations ex m) 0 \<and> bit (shl1 p (int m)) n)"
  by (induction ms arbitrary: cov) (auto simp add: bit_or_iff)

lemma select_exercise_coverage:
  "coverage_mask (select_exercise p exs req st idx) =
     update_coverage p (exs ! idx) [0..<MAX_MUSCLES] (coverage_mask st)"
  by (simp add: select_exercise_def Let_def)

lemma solve_round_coverage:
  assumes "solve_round p exs req valid st = Some st'" and "bit (coverage_mask st) n"
  shows "bit (coverage_mask st') n"
proof -
  from assms(1) obtain idx where "st' = select_exercise p exs req st idx"
    by (auto simp add: solve_round_def Let_def split: if_splits option.splits)
  with assms(2) show ?thesis
    by (simp add: select_exercise_coverage update_coverage_bits)
qed

lemma solve_trace_unfold:
  "solve_trace p exs req valid max_results st =
     st # (if loop_condition max_results st then
             (case solve_round p exs req valid st of
                None \<Rightarrow> []
              | Some st' \<Rightarrow> solve_trace p exs req valid max_results st')
           else [])"
  by (rule solve_trace.simps)

lemma solve_trace_first: "solve_trace p exs req valid max_results st ! 0 = st"
  by (subst solve_trace_unfold) simp

lemma solve_trace_not_Nil: "solve_trace p exs req valid max_results st \<noteq> []"
  by (subst solve_trace_unfold) simp

lemma solve_trace_step:
  "Suc k < length (solve_trace p exs req valid max_results st) \<Longrightarrow>
   bit (coverage_mask (solve_trace p exs req valid max_results st ! k)) n \<Longrightarrow>
   bit (coverage_mask (solve_trace p exs req valid max_results st ! Suc k)) n"
proof (induction p exs req valid max_results st arbitrary: k rule: solve_trace.induct)
  case (1 p exs req valid max_results st)
  let ?tr = "solve_trace p exs req valid max_results st"
  from "1.prems"(1) have c: "loop_condition max_results st"
    by (subst (asm) solve_trace_unfold) (simp split: if_splits)
  from "1.prems"(1) c obtain st' where r: "solve_round p exs req valid st = Some st'"
    by (subst (asm) solve_trace_unfold) (auto split: option.splits)
  let ?tl = "solve_trace p exs req valid max_results st'"
  have tr: "?tr = st # ?tl"
    using c r by (subst solve_trace_unfold) simp
  show ?case
  proof (cases k)
    case 0
    with "1.prems"(2) have "bit (coverage_mask st) n"
      by (simp add: tr)
    then have "bit (coverage_mask st') n"
      by (rule solve_round_coverage [OF r])
    then show ?thesis
      using 0 by (simp add: tr solve_trace_first)
  next
    case (Suc j)
    from "1.prems" have "Suc j < length ?tl" "bit (coverage_mask (?tl ! j)) n"
      by (simp_all add: tr Suc)
    then have "bit (coverage_mask (?tl ! Suc j)) n"
      by (rule "1.IH" [OF c r])
    then show ?thesis
      by (simp add: tr Suc)
  qed
qed

lemma solve_round_None_loop:
  "loop_condition max_results st \<Longrightarrow> solve_round p exs req valid st = None \<Longrightarrow>
   solve_loop p exs req valid max_results st = st"
  by (subst solve_loop_unfold)
    (auto simp add: solve_round_def Let_def split: if_splits option.splits)

lemma solve_round_Some_loop:
  "loop_condition max_results st \<Longrightarrow> solve_round p exs req valid st = Some st' \<Longrightarrow>
   solve_loop p exs req valid max_results st = solve_loop p exs req valid max_results st'"
  by (subst solve_loop_unfold)
    (auto simp add: solve_round_def Let_def split: if_splits option.splits)

lemma solve_trace_last:
  "last (solve_trace p exs req valid max_results st) = solve_loop p exs req valid max_results st"
proof (induction p exs req valid max_results st rule: solve_trace.induct)
  case (1 p exs req valid max_results st)
  show ?case
  proof (cases "loop_condition max_results st")
    case False
    then show ?thesis
      by (subst solve_trace_unfold, subst solve_loop_unfold) simp
  next
    case True
    show ?thesis
    proof (cases "solve_round p exs req valid st")
      case None
      then show ?thesis
        using True by (subst solve_trace_unfold) (simp add: solve_round_None_loop)
    next
      case (Some st')
      then show ?thesis
        using True "1.IH" [OF True Some]
        by (subst solve_trace_unfold)
          (simp add: solve_round_Some_loop solve_trace_not_Nil)
    qed
  qed
qed

text \<open>
  C8. Along the rounds of one \<^verbatim>\<open>solve\<close> call the coverage mask only grows: every bit
  set in the mask at the head of a round is set in the mask after that round. The list
  of states ends in the state the loop returns.
\<close>

theorem coverage_mask_monotone:
  "last (solve_trace p exs req valid max_results st)
     = solve_loop p exs req valid max_results st \<and>
   (\<forall>k n. Suc k < length (solve_trace p exs req valid max_results st) \<longrightarrow>
      bit (coverage_mask (solve_trace p exs req valid max_results st ! k)) n \<longrightarrow>
      bit (coverage_mask (solve_trace p exs req valid max_results st ! Suc k)) n)"
  using solve_trace_last solve_trace_step by blast

theorem coverage_mask_monotone_witness:
  "Suc 1 < length (solve_trace reference_platform [push_up, squat] gym_request [0, 1] 500
                     (initial_loop_state gym_request)) \<and>
   bit (coverage_mask (solve_trace reference_platform [push_up, squat] gym_request [0, 1] 500
                     (initial_loop_state gym_request) ! 1)) 0 \<and>
   bit (coverage_mask (solve_trace reference_platform [push_up, squat] gym_request [0, 1] 500
                     (initial_loop_state gym_request) ! Suc 1)) 0"
proof -
  let ?tr = "solve_trace reference_platform [push_up, squat] gym_request [0, 1] 500
               (initial_loop_state gym_request)"
  have a: "Suc 1 < length ?tr"
    by code_simp
  have b: "bit (coverage_mask (?tr ! 1)) 0"
    by code_simp
  from coverage_mask_monotone
    [of reference_platform "[push_up, squat]" gym_request "[0, 1]" 500
        "initial_loop_state gym_request"]
    a b show ?thesis
    by blast
qed

section \<open>Properties of the boundary\<close>

text \<open>
  C5 as stated fails: after a successful load of an empty array, which returns the
  count 0, \<^verbatim>\<open>Solve\<close> throws the error of an uninitialized catalog.
\<close>

theorem Solve_empty_catalog_counterexample:
  "fst (InitExercises startup_state (Js_Array [])) = Inr 0 \<and>
   Solve reference_platform (snd (InitExercises startup_state (Js_Array [])))
     (Some home_request_object)
     = Inl (Js_Error ''Exercises not initialized. Call initExercises first.'')"
  by (simp add: InitExercises_def Solve_def g_exercise_count_def)

lemma load_calls_snoc:
  "load_calls st (args @ [a]) = snd (InitExercises (load_calls st args) a)"
  by (simp add: load_calls_def)

lemma load_calls_state:
  "g_initialized (load_calls startup_state args) = (if loaded_arrays args = [] then 0 else 1) \<and>
   g_exercises (load_calls startup_state args) =
     (if loaded_arrays args = [] then []
      else map load_exercise (take MAX_EXERCISES (last (loaded_arrays args))))"
proof (induction args rule: rev_induct)
  case Nil
  then show ?case by (simp add: load_calls_def loaded_arrays_def startup_state_def)
next
  case (snoc a args)
  then show ?case
    by (cases a) (simp_all add: load_calls_snoc InitExercises_def loaded_arrays_def Let_def)
qed

text \<open>
  C5, amended. After any history of \<^verbatim>\<open>InitExercises\<close> calls, \<^verbatim>\<open>Solve\<close> fails with
  the error of an uninitialized catalog if and only if no call has succeeded or the
  latest successful call loaded an empty array.
\<close>

theorem Solve_uninitialized_iff:
  "Solve p (load_calls startup_state args) arg
      = Inl (Js_Error ''Exercises not initialized. Call initExercises first.'')
   \<longleftrightarrow> loaded_arrays args = [] \<or> last (loaded_arrays args) = []"
  by (cases arg) (auto simp add: Solve_def load_calls_state g_exercise_count_def MAX_EXERCISES_def)

text \<open>
  C6. \<^verbatim>\<open>Solve\<close> gives the same result for two request objects that differ in their
  weights only: the request it hands to \<^verbatim>\<open>solve\<close> always carries the weights
  10, 5, -20, -10, 5, 15.
\<close>

theorem Solve_ignores_weights:
  "Solve p st (Some (obj\<lparr>req_weights := w\<rparr>)) = Solve p st (Some obj) \<and>
   weights (solve_request (obj\<lparr>req_weights := w\<rparr>)) =
     \<lparr>goal_alignment = 10, compound_preference = 5, recovery_penalty_24h = - 20,
      recovery_penalty_48h = - 10, fitness_level_match = 5, muscle_coverage_gap = 15\<rparr> \<and>
   Solve p st (Some obj) =
     (if g_initialized st = 0 \<or> g_exercise_count st = 0
      then Inl (Js_Error ''Exercises not initialized. Call initExercises first.'')
      else Inr (solve p (g_exercises st) (solve_request obj) 500))"
  by (simp add: Solve_def solve_request_def default_weights_def MAX_EXERCISES_def)

lemma goal_loop_cong:
  "goals_mask r = goals_mask r' \<Longrightarrow> weights r = weights r' \<Longrightarrow>
   goal_loop p ex r gs sc = goal_loop p ex r' gs sc"
  by (induction gs arbitrary: sc) simp_all

lemma recovery_loop_cong:
  "recent_24h_muscles_mask r = recent_24h_muscles_mask r' \<Longrightarrow>
   recent_48h_muscles_mask r = recent_48h_muscles_mask r' \<Longrightarrow> weights r = weights r' \<Longrightarrow>
   recovery_loop p ex r ms sc = recovery_loop p ex r' ms sc"
  by (induction ms arbitrary: sc) simp_all

lemma coverage_gap_loop_cong:
  "weights r = weights r' \<Longrightarrow>
   coverage_gap_loop p ex r cov ms sc = coverage_gap_loop p ex r' cov ms sc"
  by (induction ms arbitrary: sc) simp_all

lemma fitness_level_score_cong:
  "fitness_level r = fitness_level r' \<Longrightarrow> weights r = weights r' \<Longrightarrow>
   fitness_level_score ex r sc = fitness_level_score ex r' sc"
  by (simp add: fitness_level_score_def Let_def)

lemma score_exercise_cong:
  assumes "goals_mask r = goals_mask r'" "fitness_level r = fitness_level r'"
    "recent_24h_muscles_mask r = recent_24h_muscles_mask r'"
    "recent_48h_muscles_mask r = recent_48h_muscles_mask r'" "weights r = weights r'"
  shows "score_exercise p ex r cov = score_exercise p ex r' cov"
  unfolding score_exercise_def Let_def
  using assms
    goal_loop_cong [of r r' p ex] recovery_loop_cong [of r r' p ex]
    fitness_level_score_cong [of r r' ex] coverage_gap_loop_cong [of r r' p ex]
  by simp

lemma score_request_solve_request:
  "score_exercise p ex (score_request obj) cov = score_exercise p ex (solve_request obj) cov"
  by (rule score_exercise_cong) (simp_all add: score_request_def solve_request_def)

text \<open>
  C9 as stated fails before the first successful load: every index is out of range
  then, and \<^verbatim>\<open>ScoreBatch\<close> throws an error instead of returning zeros.
\<close>

theorem ScoreBatch_uninitialized_counterexample:
  "g_exercise_count startup_state = 0 \<and>
   ScoreBatch reference_platform startup_state [0, - 1] home_request_object
     = Inl (Js_Error ''Not initialized'')"
  by (simp add: ScoreBatch_def startup_state_def g_exercise_count_def)

text \<open>
  C9, amended. Before any successful load \<^verbatim>\<open>ScoreBatch\<close> fails with the error
  "Not initialized". After one, it returns one score per index:
  0 for an index that is negative or not below the catalog size, and for an index in
  range the value of \<^verbatim>\<open>score_exercise\<close> on the request with a coverage mask of
  zero; no hard filter takes part.
\<close>

theorem ScoreBatch_scores:
  "(g_initialized st = 0 \<longrightarrow>
      ScoreBatch p st indices obj = Inl (Js_Error ''Not initialized'')) \<and>
   (g_initialized st \<noteq> 0 \<longrightarrow>
      (\<exists>scores. ScoreBatch p st indices obj = Inr scores \<and>
         length scores = length indices \<and>
         (\<forall>k < length indices.
            scores ! k =
              (if 0 \<le> sint (indices ! k) \<and> sint (indices ! k) < int (g_exercise_count st)
               then score_exercise p (g_exercises st ! nat (sint (indices ! k)))
                      (solve_request obj) 0
               else 0))))"
  by (simp add: ScoreBatch_def score_request_solve_request word_sle_eq)

theorem ScoreBatch_scores_witness:
  "g_initialized (load_calls startup_state [Js_Array [push_up_object, squat_object]]) \<noteq> 0 \<and>
   \<not> passes_hard_filters reference_platform squat home_request \<and>
   (\<exists>scores.
      ScoreBatch reference_platform
        (load_calls startup_state [Js_Array [push_up_object, squat_object]])
        [1, - 1, 2, 0] home_request_object = Inr scores \<and>
      length scores = 4 \<and> scores ! 0 = 40 \<and> scores ! 1 = 0 \<and> scores ! 2 = 0 \<and> scores ! 3 = 55)"
proof -
  let ?st = "load_calls startup_state [Js_Array [push_up_object, squat_object]]"
  have st: "?st = \<lparr>g_exercises = [push_up, squat], g_initialized = 1\<rparr>"
    by (simp add: load_calls_def InitExercises_def MAX_EXERCISES_def push_up_def squat_def)
  have h: "g_initialized ?st \<noteq> 0"
    by (simp add: st)
  have f: "\<not> passes_hard_filters reference_platform squat home_request"
    by code_simp
  have s: "score_exercise reference_platform squat (solve_request home_request_object) 0 = 40"
    "score_exercise reference_platform push_up (solve_request home_request_object) 0 = 55"
    by code_simp+
  from ScoreBatch_scores [of ?st reference_platform "[1, - 1, 2, 0]" home_request_object] h
  obtain scores where
    a: "ScoreBatch reference_platform ?st [1, - 1, 2, 0] home_request_object = Inr scores"
    and b: "length scores = length [1, - 1, 2, 0 :: int32]"
    and c: "\<And>k. k < length [1, - 1, 2, 0 :: int32] \<Longrightarrow> scores ! k =
          (if 0 \<le> sint ([1, - 1, 2, 0 :: int32] ! k) \<and> sint ([1, - 1, 2, 0 :: int32] ! k) < int (g_exercise_count ?st)
           then score_exercise reference_platform (g_exercises ?st ! nat (sint ([1, - 1, 2, 0 :: int32] ! k)))
                  (solve_request home_request_object) 0
           else 0)"
    by blast
  have "scores ! 0 = 40" "scores ! 1 = 0" "scores ! 2 = 0" "scores ! 3 = 55"
    using c [of 0] c [of 1] c [of 2] c [of 3] s
    by (simp_all add: st g_exercise_count_def)
  with a b h f show ?thesis
    by auto
qed

end
